theory Spec2Isabelle
  imports Complex_Main
begin

section \<open>The logging proxy of \<open>function/main.py\<close>\<close>

text \<open>
  The repository's only runtime code is the HTTP handler \<open>predict_with_logging\<close>: it
  validates a request, forwards it to the original prediction endpoint, writes one row
  to BigQuery and returns the upstream's answer. The handler is modelled as a pure
  function of the request, the configuration and the behaviour of its collaborators
  (clock, upstream endpoint, BigQuery client); it returns the response triple together
  with the list of effects it performed, in order.
\<close>

subsection \<open>Values\<close>

text \<open>
  A decoded JSON document, as \<open>json.loads\<close> builds it: \<open>None\<close>, \<open>bool\<close>, \<open>int\<close>,
  \<open>float\<close>, \<open>str\<close>, \<open>list\<close> and \<open>dict\<close> (its items in insertion order). \<open>JNull\<close> is
  Python's \<open>None\<close>. A float is given by the real number it denotes; the non-finite
  floats are not represented.
\<close>

datatype json =
    JNull
  | JBool bool
  | JInt int
  | JFloat real
  | JString string
  | JArray "json list"
  | JObject "(string \<times> json) list"

text \<open>Python's truth value of a decoded document (\<open>not x\<close> is its negation).\<close>

fun truthy :: "json \<Rightarrow> bool" where
  "truthy JNull = False"
| "truthy (JBool b) = b"
| "truthy (JInt i) = (i \<noteq> 0)"
| "truthy (JFloat r) = (r \<noteq> 0)"
| "truthy (JString s) = (s \<noteq> [])"
| "truthy (JArray xs) = (xs \<noteq> [])"
| "truthy (JObject kvs) = (kvs \<noteq> [])"

text \<open>
  The exceptions the handler distinguishes. \<open>requests.exceptions.RequestException\<close> has
  a handler of its own (line 117); every other \<open>Exception\<close> falls to the generic one
  (line 142). Of the others, \<open>JSONDecodeError\<close> is what a JSON decoder raises on bytes
  that are no JSON text (a subclass of \<open>ValueError\<close>), \<open>ValueError\<close> and \<open>RecursionError\<close>
  are what it raises when an integer literal or the nesting exceeds the interpreter's
  limits, \<open>AttributeError\<close> and \<open>UnboundLocalError\<close> come from the handler's own
  expressions.
\<close>

datatype non_request_exn =
    JSONDecodeError
  | ValueError
  | RecursionError
  | AttributeError
  | UnboundLocalError
  | OtherException string

datatype exn =
    RequestException string
  | NonRequest non_request_exn

text \<open>
  \<open>obj.get(key, default)\<close>: defined on a \<open>dict\<close> only; any other decoded document, and
  \<open>None\<close>, has no attribute \<open>get\<close>.
\<close>

fun dict_get :: "json \<Rightarrow> string \<Rightarrow> json \<Rightarrow> non_request_exn + json" where
  "dict_get (JObject kvs) k d = Inr (case map_of kvs k of None \<Rightarrow> d | Some v \<Rightarrow> v)"
| "dict_get _ k d = Inl AttributeError"

subsection \<open>Request, configuration and collaborators\<close>

text \<open>
  The body of a request, by what decides the outcome of \<open>request.get_json\<close>: no JSON body
  at all; bytes that are no JSON text, with the exception \<open>json.loads\<close> raises on them
  (\<open>JSONDecodeError\<close>, or \<open>RecursionError\<close> when they are nested beyond the recursion
  limit); or a JSON text, with the document \<open>json.loads\<close> returns or the exception it
  raises on it.
\<close>

datatype body =
    Absent
  | Not_json non_request_exn
  | Json_text "non_request_exn + json"

text \<open>
  The request as the handler reads it: \<open>request.method\<close>, the value of
  \<open>request.headers.get("X-Forwarded-For")\<close> (\<open>None\<close> when the header is absent),
  \<open>request.remote_addr\<close>, and the body.
\<close>

record request =
  "method" :: string
  x_forwarded_for :: "string option"
  remote_addr :: "string option"
  body :: body

text \<open>
  \<open>request.get_json(silent=True)\<close>: \<open>None\<close> without a JSON body; otherwise the decoder
  runs, and \<open>silent\<close> turns a \<open>ValueError\<close> (so also a \<open>JSONDecodeError\<close>) into \<open>None\<close>.
  Any other exception of the decoder leaves the call.
\<close>

definition silent :: "non_request_exn \<Rightarrow> non_request_exn + json" where
  "silent e = (if e = JSONDecodeError \<or> e = ValueError then Inr JNull else Inl e)"

definition get_json :: "request \<Rightarrow> non_request_exn + json" where
  "get_json request =
     (case body request of
        Absent \<Rightarrow> Inr JNull
      | Not_json e \<Rightarrow> silent e
      | Json_text (Inl e) \<Rightarrow> silent e
      | Json_text (Inr v) \<Rightarrow> Inr v)"

record config =
  PROJECT_ID :: "string option"
  DATASET_ID :: string
  TABLE_ID :: string
  ORIGINAL_FUNCTION_URL :: string

text \<open>
  The upstream's answer: \<open>response.status_code\<close>, \<open>response.content\<close> and the outcome of
  \<open>response.json()\<close>: the decoded document, or the exception raised. On bytes that do not
  parse that is \<open>JSONDecodeError\<close> (the one of \<open>requests\<close>, which line 88 catches as a
  \<open>json.JSONDecodeError\<close>); the decoder's other exceptions pass through \<open>response.json()\<close>
  unchanged, and none of them is a \<open>RequestException\<close>.
\<close>

record response =
  resp_status_code :: int
  resp_content :: string
  resp_json :: "non_request_exn + json"

datatype post_outcome = Responds response | Raises exn

text \<open>
  The row handed to BigQuery, a \<open>dict\<close> with these six keys (field \<open>row_k\<close> for key
  \<open>k\<close>). \<open>predictions\<close> holds whatever document the handler put there.
\<close>

record audit_row =
  row_timestamp :: string
  row_week_start :: json
  row_predictions :: json
  row_client_ip :: "string option"
  row_response_time_ms :: real
  row_status_code :: int

text \<open>
  \<open>insert_rows_json\<close> returns the list of per-row errors (empty on success) or raises.
\<close>

datatype insert_outcome = Returns "json list" | Insert_raises exn

text \<open>
  The world around one invocation: \<open>clock n\<close> is what the \<open>n\<close>-th call of
  \<open>time.time()\<close> returns (counting from 0), \<open>utcnow_iso\<close> is
  \<open>datetime.utcnow().isoformat()\<close>, \<open>post url doc\<close> is the outcome of
  \<open>requests.post\<close>, and \<open>insert_rows_json table rows\<close> that of the BigQuery client.
  \<open>round_double\<close> is the rounding of the interpreter's float arithmetic: the float
  \<open>x - y\<close> is \<open>round_double (x - y)\<close>, and likewise for the product.
\<close>

record world =
  clock :: "nat \<Rightarrow> real"
  round_double :: "real \<Rightarrow> real"
  utcnow_iso :: string
  post :: "string \<Rightarrow> json \<Rightarrow> post_outcome"
  insert_rows_json :: "string \<Rightarrow> audit_row list \<Rightarrow> insert_outcome"

datatype log_line =
    BigQuery_insert_errors "json list"
  | Failed_to_log exn
  | Error_calling exn
  | Failed_to_log_error exn
  | Unexpected_error exn

datatype effect =
    Post string json
  | Insert string "audit_row list"
  | Print log_line

type_synonym http_response = "string \<times> int \<times> (string \<times> string) list"

subsection \<open>The handler\<close>

text \<open>\<open>str.isspace\<close> on the characters a header value can hold (code points below 256).\<close>

definition isspace :: "char \<Rightarrow> bool" where
  "isspace c = (let n = of_char c :: nat in
     (9 \<le> n \<and> n \<le> 13) \<or> (28 \<le> n \<and> n \<le> 32) \<or> n = 133 \<or> n = 160)"

definition strip :: "string \<Rightarrow> string" where
  "strip s = rev (dropWhile isspace (rev (dropWhile isspace s)))"

text \<open>
  Lines 39 to 41: the forwarded-for header, else the remote address; of a
  comma-separated list the first entry, stripped.
\<close>

definition get_client_ip :: "request \<Rightarrow> string option" where
  "get_client_ip request =
     (let client_ip = (case x_forwarded_for request of
                         Some v \<Rightarrow> Some v
                       | None \<Rightarrow> remote_addr request)
      in case client_ip of
           None \<Rightarrow> None
         | Some s \<Rightarrow>
             if s \<noteq> [] \<and> CHR '','' \<in> set s
             then Some (strip (takeWhile (\<lambda>c. c \<noteq> CHR '','') s))
             else Some s)"

definition cors_headers :: "(string \<times> string) list" where
  "cors_headers =
     [(''Access-Control-Allow-Origin'', ''*''),
      (''Access-Control-Allow-Methods'', ''POST, OPTIONS''),
      (''Access-Control-Allow-Headers'', ''Content-Type'')]"

text \<open>\<open>{"Content-Type": "application/json", **headers}\<close>\<close>

definition json_headers :: "(string \<times> string) list" where
  "json_headers = (''Content-Type'', ''application/json'') # cors_headers"

text \<open>
  \<open>json.dumps({"error": msg})\<close> for the handler's three messages, none of which holds a
  character that \<open>json.dumps\<close> escapes.
\<close>

definition json_dumps_error :: "string \<Rightarrow> string" where
  "json_dumps_error msg = [CHR ''{'', CHR 0x22] @ ''error'' @ [CHR 0x22] @ '': '' @
                          [CHR 0x22] @ msg @ [CHR 0x22, CHR ''}'']"

text \<open>\<open>f"{PROJECT_ID}.{DATASET_ID}.{TABLE_ID}"\<close>; an unset project formats as \<open>None\<close>.\<close>

definition table_ref :: "config \<Rightarrow> string" where
  "table_ref cfg =
     (case PROJECT_ID cfg of None \<Rightarrow> ''None'' | Some p \<Rightarrow> p) @ ''.'' @
     DATASET_ID cfg @ ''.'' @ TABLE_ID cfg"

text \<open>
  Lines 92 to 108: the row is handed to the client; a non-empty error list is printed,
  an exception is printed, and neither leaves the block.
\<close>

definition log_to_bigquery :: "config \<Rightarrow> world \<Rightarrow> audit_row \<Rightarrow> effect list" where
  "log_to_bigquery cfg w row =
     (case insert_rows_json w (table_ref cfg) [row] of
        Returns errors \<Rightarrow>
          Insert (table_ref cfg) [row] #
            (if errors \<noteq> [] then [Print (BigQuery_insert_errors errors)] else [])
      | Insert_raises e \<Rightarrow> [Insert (table_ref cfg) [row], Print (Failed_to_log e)])"

text \<open>
  Lines 121 to 134, in the handler of \<open>RequestException\<close>: \<open>request_json\<close> is the local
  of the \<open>try\<close> body, unbound when \<open>get_json\<close> itself raised; the row takes
  \<open>request_json.get("week_start", "unknown")\<close>. Every exception of the block, also one
  of building the row, is printed and dropped.
\<close>

definition log_error_to_bigquery ::
  "config \<Rightarrow> world \<Rightarrow> non_request_exn + json \<Rightarrow> string option \<Rightarrow> real \<Rightarrow> effect list"
  where
  "log_error_to_bigquery cfg w request_json client_ip response_time_ms =
     (case (case request_json of
              Inl e \<Rightarrow> Inl UnboundLocalError
            | Inr j \<Rightarrow> dict_get j ''week_start'' (JString ''unknown'')) of
        Inl e \<Rightarrow> [Print (Failed_to_log_error (NonRequest e))]
      | Inr ws \<Rightarrow>
          (let row = \<lparr> row_timestamp = utcnow_iso w,
                       row_week_start = ws,
                       row_predictions = JArray [],
                       row_client_ip = client_ip,
                       row_response_time_ms = response_time_ms,
                       row_status_code = 500 \<rparr>
           in case insert_rows_json w (table_ref cfg) [row] of
                Returns errors \<Rightarrow> [Insert (table_ref cfg) [row]]
              | Insert_raises e \<Rightarrow>
                  [Insert (table_ref cfg) [row], Print (Failed_to_log_error e)]))"

text \<open>
  Lines 84 to 89: \<open>predictions\<close> is \<open>[]\<close> unless the status is 200; then it is what
  \<open>response.json()\<close> returns, \<open>[]\<close> when that raises \<open>JSONDecodeError\<close>. Any other
  exception of \<open>response.json()\<close> is not caught here.
\<close>

definition parse_response :: "response \<Rightarrow> non_request_exn + json" where
  "parse_response response =
     (if resp_status_code response = 200
      then (case resp_json response of
              Inr v \<Rightarrow> Inr v
            | Inl JSONDecodeError \<Rightarrow> Inr (JArray [])
            | Inl e \<Rightarrow> Inl e)
      else Inr (JArray []))"

text \<open>
  Lines 54 to 115, the body of the \<open>try\<close>: it returns a response or leaves with an
  exception, and in both cases the effects performed so far.
\<close>

definition try_block ::
  "config \<Rightarrow> world \<Rightarrow> request \<Rightarrow> real \<Rightarrow> string option \<Rightarrow>
   (exn + http_response) \<times> effect list" where
  "try_block cfg w request start_time client_ip =
     (case get_json request of
        Inl e \<Rightarrow> (Inl (NonRequest e), [])
      | Inr request_json \<Rightarrow>
          if \<not> truthy request_json
          then (Inr (json_dumps_error ''Request must be JSON'', 400, json_headers), [])
          else
            (case dict_get request_json ''week_start'' JNull of
               Inl e \<Rightarrow> (Inl (NonRequest e), [])
             | Inr week_start \<Rightarrow>
                 if \<not> truthy week_start
                 then (Inr (json_dumps_error ''week_start is required'', 400,
                            json_headers), [])
                 else
                   (case post w (ORIGINAL_FUNCTION_URL cfg) request_json of
                      Raises e \<Rightarrow> (Inl e, [Post (ORIGINAL_FUNCTION_URL cfg) request_json])
                    | Responds response \<Rightarrow>
                        (let response_time_ms =
                               round_double w (round_double w (clock w 1 - start_time) * 1000);
                             status_code = resp_status_code response
                         in case parse_response response of
                              Inl e \<Rightarrow>
                                (Inl (NonRequest e),
                                 [Post (ORIGINAL_FUNCTION_URL cfg) request_json])
                            | Inr predictions \<Rightarrow>
                                (let row = \<lparr> row_timestamp = utcnow_iso w,
                                             row_week_start = week_start,
                                             row_predictions = predictions,
                                             row_client_ip = client_ip,
                                             row_response_time_ms = response_time_ms,
                                             row_status_code = status_code \<rparr>
                                 in (Inr (resp_content response, status_code, json_headers),
                                     Post (ORIGINAL_FUNCTION_URL cfg) request_json #
                                       log_to_bigquery cfg w row))))))"

text \<open>
  The handler. A \<open>RequestException\<close> can only come from \<open>requests.post\<close>, after one
  reading of the clock, so the reading of line 118 is the second one.
\<close>

definition predict_with_logging ::
  "config \<Rightarrow> world \<Rightarrow> request \<Rightarrow> http_response \<times> effect list" where
  "predict_with_logging cfg w request =
     (let start_time = clock w 0;
          client_ip = get_client_ip request;
          headers = cors_headers
      in if method request = ''OPTIONS'' then (('''', 204, headers), [])
         else
           (case try_block cfg w request start_time client_ip of
              (Inr r, fx) \<Rightarrow> (r, fx)
            | (Inl (RequestException e), fx) \<Rightarrow>
                (let response_time_ms =
                       round_double w (round_double w (clock w 1 - start_time) * 1000)
                 in ((json_dumps_error ''Failed to get predictions'', 500, json_headers),
                     fx @ [Print (Error_calling (RequestException e))] @
                       log_error_to_bigquery cfg w (get_json request) client_ip
                         response_time_ms))
            | (Inl e, fx) \<Rightarrow>
                ((json_dumps_error ''Internal server error'', 500, json_headers),
                 fx @ [Print (Unexpected_error e)])))"

subsection \<open>Reading the effects\<close>

text \<open>The upstream calls made, and the rows handed to the audit sink, in order.\<close>

fun upstream_calls :: "effect list \<Rightarrow> (string \<times> json) list" where
  "upstream_calls [] = []"
| "upstream_calls (Post url doc # fx) = (url, doc) # upstream_calls fx"
| "upstream_calls (_ # fx) = upstream_calls fx"

fun audit_attempts :: "effect list \<Rightarrow> audit_row list list" where
  "audit_attempts [] = []"
| "audit_attempts (Insert t rows # fx) = rows # audit_attempts fx"
| "audit_attempts (_ # fx) = audit_attempts fx"

subsection \<open>Scenarios\<close>

text \<open>
  Concrete collaborators on which the handler is evaluated: a configuration with the
  defaults of lines 22 to 27, a world whose clock reads \<open>t0\<close> at entry and \<open>t1\<close>
  afterwards and whose upstream and sink each behave in one fixed way, a \<open>POST\<close> request
  with a given body, the body of the documented example (week \<open>2024-01-01\<close>), and an
  upstream answer given by its status, its bytes and the outcome of decoding them. The
  readings used are small integers, on which float subtraction and multiplication by
  1000 are exact, so the scripted world rounds nothing.
\<close>

definition example_config :: config where
  "example_config =
     \<lparr> PROJECT_ID = Some ''cis-5450-final-project'',
       DATASET_ID = ''ml_prediction_logs'',
       TABLE_ID = ''potw_predictions'',
       ORIGINAL_FUNCTION_URL =
         ''https://us-central1-cis-5450-final-project.cloudfunctions.net/predict-potw'' \<rparr>"

definition scripted_world ::
  "real \<Rightarrow> real \<Rightarrow> post_outcome \<Rightarrow> insert_outcome \<Rightarrow> world" where
  "scripted_world t0 t1 upstream sink =
     \<lparr> clock = (\<lambda>n. if n = 0 then t0 else t1),
       round_double = (\<lambda>x. x),
       utcnow_iso = ''2024-01-02T03:04:05.000006'',
       post = (\<lambda>url doc. upstream),
       insert_rows_json = (\<lambda>table rows. sink) \<rparr>"

definition post_request :: "body \<Rightarrow> request" where
  "post_request b =
     \<lparr> method = ''POST'',
       x_forwarded_for = Some ''203.0.113.7, 10.0.0.1'',
       remote_addr = Some ''10.0.0.1'',
       body = b \<rparr>"

definition options_request :: request where
  "options_request =
     \<lparr> method = ''OPTIONS'', x_forwarded_for = None, remote_addr = Some ''10.0.0.1'',
       body = Absent \<rparr>"

definition week_body :: "(string \<times> json) list" where
  "week_body = [(''week_start'', JString ''2024-01-01'')]"

definition week_request :: request where
  "week_request = post_request (Json_text (Inr (JObject week_body)))"

definition upstream_answer ::
  "int \<Rightarrow> string \<Rightarrow> non_request_exn + json \<Rightarrow> response" where
  "upstream_answer status bytes decoded =
     \<lparr> resp_status_code = status, resp_content = bytes, resp_json = decoded \<rparr>"

text \<open>Three sinks: one that accepts every row, one that rejects it, one that raises.\<close>

definition sink_accepts :: "string \<Rightarrow> audit_row list \<Rightarrow> insert_outcome" where
  "sink_accepts table rows = Returns []"

definition sink_rejects :: "string \<Rightarrow> audit_row list \<Rightarrow> insert_outcome" where
  "sink_rejects table rows =
     Returns [JObject [(''index'', JInt 0), (''errors'', JArray [JString ''invalid''])]]"

definition sink_raises :: "string \<Rightarrow> audit_row list \<Rightarrow> insert_outcome" where
  "sink_raises table rows =
     Insert_raises (NonRequest (OtherException ''ServiceUnavailable''))"

section \<open>Properties of the handler\<close>

subsection \<open>Auxiliary facts\<close>

lemma try_block_forwarded:
  assumes "get_json request = Inr (JObject kvs)"
    and "map_of kvs ''week_start'' = Some ws" and "truthy ws"
  shows "try_block cfg w request t0 ip =
     (case post w (ORIGINAL_FUNCTION_URL cfg) (JObject kvs) of
        Raises e \<Rightarrow> (Inl e, [Post (ORIGINAL_FUNCTION_URL cfg) (JObject kvs)])
      | Responds response \<Rightarrow>
          (case parse_response response of
             Inl e \<Rightarrow> (Inl (NonRequest e), [Post (ORIGINAL_FUNCTION_URL cfg) (JObject kvs)])
           | Inr predictions \<Rightarrow>
               (Inr (resp_content response, resp_status_code response, json_headers),
                Post (ORIGINAL_FUNCTION_URL cfg) (JObject kvs) #
                  log_to_bigquery cfg w
                    \<lparr> row_timestamp = utcnow_iso w,
                      row_week_start = ws,
                      row_predictions = predictions,
                      row_client_ip = ip,
                      row_response_time_ms =
                        round_double w (round_double w (clock w 1 - t0) * 1000),
                      row_status_code = resp_status_code response \<rparr>)))"
proof -
  from assms(2) have "kvs \<noteq> []" by auto
  with assms show ?thesis
    by (simp add: try_block_def Let_def split: post_outcome.splits sum.splits)
qed

lemma audit_attempts_log_to_bigquery:
  "audit_attempts (log_to_bigquery cfg w row) = [[row]]"
  by (simp add: log_to_bigquery_def split: insert_outcome.splits)

lemma audit_attempts_log_error_to_bigquery:
  "audit_attempts (log_error_to_bigquery cfg w (Inr (JObject kvs)) ip ms) =
     [[\<lparr> row_timestamp = utcnow_iso w,
         row_week_start = (case map_of kvs ''week_start'' of
                             None \<Rightarrow> JString ''unknown'' | Some v \<Rightarrow> v),
         row_predictions = JArray [],
         row_client_ip = ip,
         row_response_time_ms = ms,
         row_status_code = 500 \<rparr>]]"
  by (simp add: log_error_to_bigquery_def Let_def split: insert_outcome.splits)

lemma audit_attempts_append:
  "audit_attempts (xs @ ys) = audit_attempts xs @ audit_attempts ys"
  by (induction xs rule: audit_attempts.induct) simp_all


lemma try_block_stopped:
  assumes "\<not> (\<exists>kvs ws. get_json request = Inr (JObject kvs) \<and>
      map_of kvs ''week_start'' = Some ws \<and> truthy ws)"
  shows "(\<exists>r. try_block cfg w request t0 ip = (Inr r, [])) \<or>
         (\<exists>e. try_block cfg w request t0 ip = (Inl (NonRequest e), []))"
proof (cases "get_json request")
  case (Inl e)
  then show ?thesis by (simp add: try_block_def)
next
  case (Inr j)
  show ?thesis
  proof (cases "truthy j")
    case False
    with Inr show ?thesis by (simp add: try_block_def)
  next
    case True
    show ?thesis
    proof (cases "\<exists>kvs. j = JObject kvs")
      case False
      then have "dict_get j ''week_start'' JNull = Inl AttributeError"
        by (cases j) simp_all
      with Inr True show ?thesis by (simp add: try_block_def)
    next
      case obj: True
      then obtain kvs where j: "j = JObject kvs" by blast
      with assms Inr have "\<forall>v. map_of kvs ''week_start'' = Some v \<longrightarrow> \<not> truthy v"
        by simp
      then have "\<not> truthy (case map_of kvs ''week_start'' of None \<Rightarrow> JNull | Some v \<Rightarrow> v)"
        by (cases "map_of kvs ''week_start''") simp_all
      with Inr True j show ?thesis by (simp add: try_block_def)
    qed
  qed
qed

lemma audit_attempts_cases:
  "audit_attempts (snd (predict_with_logging cfg w request)) = [] \<or>
   (\<exists>row. audit_attempts (snd (predict_with_logging cfg w request)) = [[row]] \<and>
      row_response_time_ms row =
        round_double w (round_double w (clock w 1 - clock w 0) * 1000))"
proof (cases "method request = ''OPTIONS''")
  case True
  then show ?thesis by (simp add: predict_with_logging_def)
next
  case False
  note m = this
  show ?thesis
  proof (cases "\<exists>kvs ws. get_json request = Inr (JObject kvs) \<and>
      map_of kvs ''week_start'' = Some ws \<and> truthy ws")
    case True
    then obtain kvs ws where g: "get_json request = Inr (JObject kvs)"
      and k: "map_of kvs ''week_start'' = Some ws" and t: "truthy ws"
      by blast
    show ?thesis
    proof (cases "post w (ORIGINAL_FUNCTION_URL cfg) (JObject kvs)")
      case (Responds response)
      with m g k t show ?thesis
        by (cases "parse_response response")
          (simp_all add: predict_with_logging_def try_block_forwarded
            audit_attempts_log_to_bigquery)
    next
      case (Raises e)
      with m g k t show ?thesis
        by (cases e)
          (simp_all add: predict_with_logging_def try_block_forwarded audit_attempts_append
            audit_attempts_log_error_to_bigquery)
    qed
  next
    case False
    from try_block_stopped [OF False, of cfg w "clock w 0" "get_client_ip request"]
    have "audit_attempts (snd (predict_with_logging cfg w request)) = []"
      using m by (auto simp add: predict_with_logging_def)
    then show ?thesis by simp
  qed
qed

text \<open>The bytes of the error bodies.\<close>

lemma json_dumps_error_bytes:
  "json_dumps_error ''Request must be JSON'' =
     CHR ''{'' # CHR 0x22 # ''error'' @ CHR 0x22 # '': '' @
     CHR 0x22 # ''Request must be JSON'' @ [CHR 0x22, CHR ''}'']"
  "json_dumps_error ''week_start is required'' =
     CHR ''{'' # CHR 0x22 # ''error'' @ CHR 0x22 # '': '' @
     CHR 0x22 # ''week_start is required'' @ [CHR 0x22, CHR ''}'']"
  "json_dumps_error ''Failed to get predictions'' =
     CHR ''{'' # CHR 0x22 # ''error'' @ CHR 0x22 # '': '' @
     CHR 0x22 # ''Failed to get predictions'' @ [CHR 0x22, CHR ''}'']"
  "json_dumps_error ''Internal server error'' =
     CHR ''{'' # CHR 0x22 # ''error'' @ CHR 0x22 # '': '' @
     CHR 0x22 # ''Internal server error'' @ [CHR 0x22, CHR ''}'']"
  by (simp_all add: json_dumps_error_def)

subsection \<open>Preflight and validation\<close>

text \<open>
  Claim C6. A request with method \<open>OPTIONS\<close> is answered with an empty body, status 204
  and the CORS headers alone; the upstream is not called and no audit row is handed to
  the sink.
\<close>

theorem options_short_circuits:
  assumes "method request = ''OPTIONS''"
  shows "fst (predict_with_logging cfg w request) = ('''', 204, cors_headers) \<and>
         upstream_calls (snd (predict_with_logging cfg w request)) = [] \<and>
         audit_attempts (snd (predict_with_logging cfg w request)) = []"
  using assms by (simp add: predict_with_logging_def)

theorem options_short_circuits_witness:
  "method options_request = ''OPTIONS'' \<and>
   fst (predict_with_logging example_config
          (scripted_world 10 11 (Responds (upstream_answer 200 ''[]'' (Inr (JArray []))))
             (Returns []))
          options_request) = ('''', 204, cors_headers) \<and>
   upstream_calls (snd (predict_with_logging example_config
          (scripted_world 10 11 (Responds (upstream_answer 200 ''[]'' (Inr (JArray []))))
             (Returns []))
          options_request)) = [] \<and>
   audit_attempts (snd (predict_with_logging example_config
          (scripted_world 10 11 (Responds (upstream_answer 200 ''[]'' (Inr (JArray []))))
             (Returns []))
          options_request)) = []"
  using options_short_circuits [of options_request example_config
      "scripted_world 10 11 (Responds (upstream_answer 200 ''[]'' (Inr (JArray []))))
         (Returns [])"]
  by (simp add: options_request_def)




text \<open>
  Claim C5, as stated, fails: the empty object \<open>{}\<close> is valid JSON without
  \<open>week_start\<close>, and it is falsy, so the guard of line 57 answers it with
  \<open>Request must be JSON\<close>, not with \<open>week_start is required\<close>.
\<close>

theorem empty_object_is_rejected_as_not_json:
  "method (post_request (Json_text (Inr (JObject [])))) \<noteq> ''OPTIONS'' \<and>
   get_json (post_request (Json_text (Inr (JObject [])))) = Inr (JObject []) \<and>
   map_of [] ''week_start'' = (None :: json option) \<and>
   fst (predict_with_logging example_config
          (scripted_world 10 11 (Responds (upstream_answer 200 ''[]'' (Inr (JArray []))))
             (Returns []))
          (post_request (Json_text (Inr (JObject []))))) =
     (json_dumps_error ''Request must be JSON'', 400, json_headers) \<and>
   json_dumps_error ''Request must be JSON'' \<noteq> json_dumps_error ''week_start is required''"
  by (simp add: predict_with_logging_def try_block_def post_request_def get_json_def
      json_dumps_error_def)

text \<open>
  Claim C5, amended. A request other than \<open>OPTIONS\<close> whose body decodes to a non-empty
  JSON object in which \<open>week_start\<close> is missing or falsy (\<open>null\<close>, \<open>false\<close>, zero, an
  empty string, array or object) is answered with status 400 and the body \<open>json.dumps\<close>
  of the error \<open>week_start is required\<close>; the upstream is not called and no audit row
  is handed to the sink.
\<close>

theorem missing_week_start_is_rejected:
  assumes "method request \<noteq> ''OPTIONS''"
    and "get_json request = Inr (JObject kvs)" and "kvs \<noteq> []"
    and "\<forall>v. map_of kvs ''week_start'' = Some v \<longrightarrow> \<not> truthy v"
  shows "fst (predict_with_logging cfg w request) =
           (json_dumps_error ''week_start is required'', 400, json_headers) \<and>
         upstream_calls (snd (predict_with_logging cfg w request)) = [] \<and>
         audit_attempts (snd (predict_with_logging cfg w request)) = []"
  using assms
  by (cases "map_of kvs ''week_start''") (simp_all add: predict_with_logging_def try_block_def)

theorem missing_week_start_is_rejected_witness:
  "method (post_request (Json_text (Inr (JObject [(''week_start'', JString '''')])))) \<noteq>
     ''OPTIONS'' \<and>
   get_json (post_request (Json_text (Inr (JObject [(''week_start'', JString '''')])))) =
     Inr (JObject [(''week_start'', JString '''')]) \<and>
   [(''week_start'', JString '''')] \<noteq> [] \<and>
   \<not> truthy (JString '''') \<and>
   fst (predict_with_logging example_config
          (scripted_world 10 11 (Responds (upstream_answer 200 ''[]'' (Inr (JArray []))))
             (Returns []))
          (post_request (Json_text (Inr (JObject [(''week_start'', JString '''')]))))) =
     (json_dumps_error ''week_start is required'', 400, json_headers) \<and>
   upstream_calls (snd (predict_with_logging example_config
          (scripted_world 10 11 (Responds (upstream_answer 200 ''[]'' (Inr (JArray []))))
             (Returns []))
          (post_request (Json_text (Inr (JObject [(''week_start'', JString '''')])))))) = [] \<and>
   audit_attempts (snd (predict_with_logging example_config
          (scripted_world 10 11 (Responds (upstream_answer 200 ''[]'' (Inr (JArray []))))
             (Returns []))
          (post_request (Json_text (Inr (JObject [(''week_start'', JString '''')])))))) = []"
  using missing_week_start_is_rejected
    [of "post_request (Json_text (Inr (JObject [(''week_start'', JString '''')])))"
        "[(''week_start'', JString '''')]" example_config
        "scripted_world 10 11 (Responds (upstream_answer 200 ''[]'' (Inr (JArray []))))
           (Returns [])"]
  by (simp add: post_request_def get_json_def)

subsection \<open>Forwarded requests\<close>

text \<open>
  Claim C2. For a valid request (a JSON body with a truthy \<open>week_start\<close>) to which the
  upstream answers 200 with a body that decodes to an array of length \<open>n\<close>, the handler
  returns the upstream's bytes with status 200, and the one row handed to the sink has
  \<open>predictions\<close> of length \<open>n\<close> and \<open>status_code\<close> 200.
\<close>

theorem upstream_200_array_is_returned_and_logged:
  assumes "method request \<noteq> ''OPTIONS''"
    and "get_json request = Inr (JObject kvs)"
    and "map_of kvs ''week_start'' = Some ws" and "truthy ws"
    and "post w (ORIGINAL_FUNCTION_URL cfg) (JObject kvs) = Responds response"
    and "resp_status_code response = 200"
    and "resp_json response = Inr (JArray ps)" and "length ps = n"
  shows "fst (predict_with_logging cfg w request) =
           (resp_content response, 200, json_headers) \<and>
         (\<exists>row qs. audit_attempts (snd (predict_with_logging cfg w request)) = [[row]] \<and>
            row_predictions row = JArray qs \<and> length qs = n \<and> row_status_code row = 200)"
  using assms
  by (simp add: predict_with_logging_def try_block_forwarded parse_response_def
      audit_attempts_log_to_bigquery)

theorem upstream_200_array_is_returned_and_logged_witness:
  "method week_request \<noteq> ''OPTIONS'' \<and>
   get_json week_request = Inr (JObject week_body) \<and>
   map_of week_body ''week_start'' = Some (JString ''2024-01-01'') \<and>
   truthy (JString ''2024-01-01'') \<and>
   post (scripted_world 10 11
           (Responds (upstream_answer 200 ''[1, 2]'' (Inr (JArray [JInt 1, JInt 2]))))
           (Returns []))
     (ORIGINAL_FUNCTION_URL example_config) (JObject week_body) =
     Responds (upstream_answer 200 ''[1, 2]'' (Inr (JArray [JInt 1, JInt 2]))) \<and>
   resp_status_code (upstream_answer 200 ''[1, 2]'' (Inr (JArray [JInt 1, JInt 2]))) = 200 \<and>
   resp_json (upstream_answer 200 ''[1, 2]'' (Inr (JArray [JInt 1, JInt 2]))) =
     Inr (JArray [JInt 1, JInt 2]) \<and>
   length [JInt 1, JInt 2] = 2 \<and>
   fst (predict_with_logging example_config
          (scripted_world 10 11
             (Responds (upstream_answer 200 ''[1, 2]'' (Inr (JArray [JInt 1, JInt 2]))))
             (Returns []))
          week_request) =
     (''[1, 2]'', 200, json_headers) \<and>
   (\<exists>row qs.
      audit_attempts (snd (predict_with_logging example_config
          (scripted_world 10 11
             (Responds (upstream_answer 200 ''[1, 2]'' (Inr (JArray [JInt 1, JInt 2]))))
             (Returns []))
          week_request)) = [[row]] \<and>
      row_predictions row = JArray qs \<and> length qs = 2 \<and> row_status_code row = 200)"
  using upstream_200_array_is_returned_and_logged
    [of "week_request" week_body "JString ''2024-01-01''"
        "scripted_world 10 11
           (Responds (upstream_answer 200 ''[1, 2]'' (Inr (JArray [JInt 1, JInt 2]))))
           (Returns [])"
        example_config
        "upstream_answer 200 ''[1, 2]'' (Inr (JArray [JInt 1, JInt 2]))"
        "[JInt 1, JInt 2]" 2]
  by (simp add: week_request_def post_request_def get_json_def week_body_def
      scripted_world_def upstream_answer_def)

text \<open>
  Claim C10. For a valid request to which the upstream answers 200 with a body that
  decodes to some value \<open>v\<close>, the row's \<open>predictions\<close> is \<open>v\<close> itself, whatever its shape
  (so also when \<open>v\<close> is an object or a string and no array), and the upstream's bytes
  and status are returned unchanged.
\<close>

theorem decoded_body_is_logged_verbatim:
  assumes "method request \<noteq> ''OPTIONS''"
    and "get_json request = Inr (JObject kvs)"
    and "map_of kvs ''week_start'' = Some ws" and "truthy ws"
    and "post w (ORIGINAL_FUNCTION_URL cfg) (JObject kvs) = Responds response"
    and "resp_status_code response = 200"
    and "resp_json response = Inr v"
  shows "fst (predict_with_logging cfg w request) =
           (resp_content response, resp_status_code response, json_headers) \<and>
         (\<exists>row. audit_attempts (snd (predict_with_logging cfg w request)) = [[row]] \<and>
            row_predictions row = v)"
  using assms
  by (simp add: predict_with_logging_def try_block_forwarded parse_response_def
      audit_attempts_log_to_bigquery)

theorem decoded_body_is_logged_verbatim_witness:
  "method week_request \<noteq> ''OPTIONS'' \<and>
   get_json week_request = Inr (JObject week_body) \<and>
   map_of week_body ''week_start'' = Some (JString ''2024-01-01'') \<and>
   truthy (JString ''2024-01-01'') \<and>
   post (scripted_world 10 11
           (Responds (upstream_answer 200 ''{}'' (Inr (JObject [])))) (Returns []))
     (ORIGINAL_FUNCTION_URL example_config) (JObject week_body) =
     Responds (upstream_answer 200 ''{}'' (Inr (JObject []))) \<and>
   resp_status_code (upstream_answer 200 ''{}'' (Inr (JObject []))) = 200 \<and>
   resp_json (upstream_answer 200 ''{}'' (Inr (JObject []))) = Inr (JObject []) \<and>
   fst (predict_with_logging example_config
          (scripted_world 10 11
             (Responds (upstream_answer 200 ''{}'' (Inr (JObject [])))) (Returns []))
          week_request) =
     (''{}'', 200, json_headers) \<and>
   (\<exists>row.
      audit_attempts (snd (predict_with_logging example_config
          (scripted_world 10 11
             (Responds (upstream_answer 200 ''{}'' (Inr (JObject [])))) (Returns []))
          week_request)) = [[row]] \<and>
      row_predictions row = JObject [])"
  using decoded_body_is_logged_verbatim
    [of "week_request" week_body "JString ''2024-01-01''"
        "scripted_world 10 11
           (Responds (upstream_answer 200 ''{}'' (Inr (JObject [])))) (Returns [])"
        example_config
        "upstream_answer 200 ''{}'' (Inr (JObject []))" "JObject []"]
  by (simp add: week_request_def post_request_def get_json_def week_body_def
      scripted_world_def upstream_answer_def)

text \<open>
  Claim C8. For a valid request to which the upstream answers with a status other than
  200, the handler returns the upstream's bytes and status unchanged, and the row's
  \<open>predictions\<close> is the empty list.
\<close>

theorem upstream_non_200_is_passed_through:
  assumes "method request \<noteq> ''OPTIONS''"
    and "get_json request = Inr (JObject kvs)"
    and "map_of kvs ''week_start'' = Some ws" and "truthy ws"
    and "post w (ORIGINAL_FUNCTION_URL cfg) (JObject kvs) = Responds response"
    and "resp_status_code response \<noteq> 200"
  shows "fst (predict_with_logging cfg w request) =
           (resp_content response, resp_status_code response, json_headers) \<and>
         (\<exists>row. audit_attempts (snd (predict_with_logging cfg w request)) = [[row]] \<and>
            row_predictions row = JArray [])"
  using assms
  by (simp add: predict_with_logging_def try_block_forwarded parse_response_def
      audit_attempts_log_to_bigquery)

theorem upstream_non_200_is_passed_through_witness:
  "method week_request \<noteq> ''OPTIONS'' \<and>
   get_json week_request = Inr (JObject week_body) \<and>
   map_of week_body ''week_start'' = Some (JString ''2024-01-01'') \<and>
   truthy (JString ''2024-01-01'') \<and>
   post (scripted_world 10 11
           (Responds (upstream_answer 503 ''[3]'' (Inr (JArray [JInt 3])))) (Returns []))
     (ORIGINAL_FUNCTION_URL example_config) (JObject week_body) =
     Responds (upstream_answer 503 ''[3]'' (Inr (JArray [JInt 3]))) \<and>
   resp_status_code (upstream_answer 503 ''[3]'' (Inr (JArray [JInt 3]))) \<noteq> 200 \<and>
   fst (predict_with_logging example_config
          (scripted_world 10 11
             (Responds (upstream_answer 503 ''[3]'' (Inr (JArray [JInt 3])))) (Returns []))
          week_request) =
     (''[3]'', 503, json_headers) \<and>
   (\<exists>row.
      audit_attempts (snd (predict_with_logging example_config
          (scripted_world 10 11
             (Responds (upstream_answer 503 ''[3]'' (Inr (JArray [JInt 3])))) (Returns []))
          week_request)) = [[row]] \<and>
      row_predictions row = JArray [])"
  using upstream_non_200_is_passed_through
    [of "week_request" week_body "JString ''2024-01-01''"
        "scripted_world 10 11
           (Responds (upstream_answer 503 ''[3]'' (Inr (JArray [JInt 3])))) (Returns [])"
        example_config
        "upstream_answer 503 ''[3]'' (Inr (JArray [JInt 3]))"]
  by (simp add: week_request_def post_request_def get_json_def week_body_def
      scripted_world_def upstream_answer_def)

text \<open>
  Claim C3. For a valid request whose upstream call raises a \<open>RequestException\<close>
  (timeout, connection failure), the handler returns status 500 with the body
  \<open>json.dumps\<close> of the error \<open>Failed to get predictions\<close>, and one row is handed to the
  sink, with \<open>status_code\<close> 500, empty \<open>predictions\<close> and the \<open>week_start\<close> of the
  parsed body.
\<close>

theorem transport_error_gives_500_and_error_row:
  assumes "method request \<noteq> ''OPTIONS''"
    and "get_json request = Inr (JObject kvs)"
    and "map_of kvs ''week_start'' = Some ws" and "truthy ws"
    and "post w (ORIGINAL_FUNCTION_URL cfg) (JObject kvs) = Raises (RequestException e)"
  shows "fst (predict_with_logging cfg w request) =
           (json_dumps_error ''Failed to get predictions'', 500, json_headers) \<and>
         audit_attempts (snd (predict_with_logging cfg w request)) =
           [[\<lparr> row_timestamp = utcnow_iso w,
               row_week_start = ws,
               row_predictions = JArray [],
               row_client_ip = get_client_ip request,
               row_response_time_ms =
                 round_double w (round_double w (clock w 1 - clock w 0) * 1000),
               row_status_code = 500 \<rparr>]]"
  using assms
  by (simp add: predict_with_logging_def try_block_forwarded audit_attempts_append
      audit_attempts_log_error_to_bigquery)

theorem transport_error_gives_500_and_error_row_witness:
  "method week_request \<noteq> ''OPTIONS'' \<and>
   get_json week_request = Inr (JObject week_body) \<and>
   map_of week_body ''week_start'' = Some (JString ''2024-01-01'') \<and>
   truthy (JString ''2024-01-01'') \<and>
   post (scripted_world 10 40 (Raises (RequestException ''Read timed out'')) (Returns []))
     (ORIGINAL_FUNCTION_URL example_config) (JObject week_body) =
     Raises (RequestException ''Read timed out'') \<and>
   fst (predict_with_logging example_config
          (scripted_world 10 40 (Raises (RequestException ''Read timed out'')) (Returns []))
          week_request) =
     (json_dumps_error ''Failed to get predictions'', 500, json_headers) \<and>
   audit_attempts (snd (predict_with_logging example_config
          (scripted_world 10 40 (Raises (RequestException ''Read timed out'')) (Returns []))
          week_request)) =
     [[\<lparr> row_timestamp = ''2024-01-02T03:04:05.000006'',
         row_week_start = JString ''2024-01-01'',
         row_predictions = JArray [],
         row_client_ip = Some ''203.0.113.7'',
         row_response_time_ms = 30000,
         row_status_code = 500 \<rparr>]]"
  using transport_error_gives_500_and_error_row
    [of "week_request" week_body "JString ''2024-01-01''"
        "scripted_world 10 40 (Raises (RequestException ''Read timed out'')) (Returns [])"
        example_config "''Read timed out''"]
  by (simp add: week_request_def post_request_def get_json_def week_body_def
      scripted_world_def get_client_ip_def strip_def isspace_def)

subsection \<open>The audit sink\<close>

text \<open>
  Claim C1. The response triple does not depend on the sink: for one request, one
  configuration and one world, replacing the behaviour of \<open>insert_rows_json\<close> by any
  other (an empty error list, a non-empty one, an exception, on whatever row) leaves the
  returned body, status and headers the same.
\<close>

theorem sink_behaviour_never_changes_response:
  "fst (predict_with_logging cfg (w\<lparr>insert_rows_json := sink1\<rparr>) request) =
   fst (predict_with_logging cfg (w\<lparr>insert_rows_json := sink2\<rparr>) request)"
  by (simp add: predict_with_logging_def try_block_def Let_def
      split: option.splits sum.splits post_outcome.splits exn.splits prod.splits)

theorem sink_behaviour_never_changes_response_witness:
  "fst (predict_with_logging example_config
          ((scripted_world 10 11
              (Responds (upstream_answer 200 ''[1, 2]'' (Inr (JArray [JInt 1, JInt 2]))))
              (Returns []))
           \<lparr>insert_rows_json := sink_accepts\<rparr>)
          week_request) =
   fst (predict_with_logging example_config
          ((scripted_world 10 11
              (Responds (upstream_answer 200 ''[1, 2]'' (Inr (JArray [JInt 1, JInt 2]))))
              (Returns []))
           \<lparr>insert_rows_json := sink_rejects\<rparr>)
          week_request) \<and>
   fst (predict_with_logging example_config
          ((scripted_world 10 11
              (Responds (upstream_answer 200 ''[1, 2]'' (Inr (JArray [JInt 1, JInt 2]))))
              (Returns []))
           \<lparr>insert_rows_json := sink_accepts\<rparr>)
          week_request) =
   fst (predict_with_logging example_config
          ((scripted_world 10 11
              (Responds (upstream_answer 200 ''[1, 2]'' (Inr (JArray [JInt 1, JInt 2]))))
              (Returns []))
           \<lparr>insert_rows_json := sink_raises\<rparr>)
          week_request)"
  using sink_behaviour_never_changes_response
    [where cfg = example_config
       and w = "scripted_world 10 11
           (Responds (upstream_answer 200 ''[1, 2]'' (Inr (JArray [JInt 1, JInt 2]))))
           (Returns [])"
       and request = "week_request"
       and ?sink1.0 = sink_accepts and ?sink2.0 = sink_rejects]
    sink_behaviour_never_changes_response
    [where cfg = example_config
       and w = "scripted_world 10 11
           (Responds (upstream_answer 200 ''[1, 2]'' (Inr (JArray [JInt 1, JInt 2]))))
           (Returns [])"
       and request = "week_request"
       and ?sink1.0 = sink_accepts and ?sink2.0 = sink_raises]
  by simp


text \<open>
  Claim C7, as stated, fails: a \<open>POST\<close> without a JSON body reaches request parsing and
  is answered 400 by the return of line 58, before any row is built.
\<close>

theorem rejected_request_has_no_audit_attempt:
  "method (post_request Absent) \<noteq> ''OPTIONS'' \<and>
   audit_attempts (snd (predict_with_logging example_config
          (scripted_world 10 11 (Responds (upstream_answer 200 ''[]'' (Inr (JArray []))))
             (Returns []))
          (post_request Absent))) = []"
  by (simp add: predict_with_logging_def try_block_def post_request_def get_json_def)

text \<open>
  Claim C7, amended. Exactly one insertion, of exactly one row, is attempted for every
  request other than \<open>OPTIONS\<close> that passes validation (its body decodes to a JSON object
  with a truthy \<open>week_start\<close>) and whose upstream call either raises a
  \<open>RequestException\<close>, or returns a response on which the parsing of lines 84 to 89
  goes through: the status is not 200, or \<open>response.json()\<close> returns a document or
  raises \<open>JSONDecodeError\<close>. None is attempted for an \<open>OPTIONS\<close> request, nor for a
  request that validation answers with 400: one for which \<open>get_json\<close> returns \<open>None\<close> or
  another falsy document, or a non-empty object whose \<open>week_start\<close> is missing or falsy.
\<close>

theorem one_audit_attempt_per_forwarded_request:
  "(method request = ''OPTIONS'' \<longrightarrow>
      audit_attempts (snd (predict_with_logging cfg w request)) = []) \<and>
   (method request \<noteq> ''OPTIONS'' \<and> (\<exists>j. get_json request = Inr j \<and> \<not> truthy j) \<longrightarrow>
      audit_attempts (snd (predict_with_logging cfg w request)) = []) \<and>
   (method request \<noteq> ''OPTIONS'' \<and> get_json request = Inr (JObject kvs) \<and> kvs \<noteq> [] \<and>
    (\<forall>v. map_of kvs ''week_start'' = Some v \<longrightarrow> \<not> truthy v) \<longrightarrow>
      audit_attempts (snd (predict_with_logging cfg w request)) = []) \<and>
   (method request \<noteq> ''OPTIONS'' \<and> get_json request = Inr (JObject kvs) \<and>
    map_of kvs ''week_start'' = Some ws \<and> truthy ws \<and>
    ((\<exists>r. post w (ORIGINAL_FUNCTION_URL cfg) (JObject kvs) = Responds r \<and>
          (resp_status_code r \<noteq> 200 \<or> (\<exists>v. resp_json r = Inr v) \<or>
           resp_json r = Inl JSONDecodeError)) \<or>
     (\<exists>e. post w (ORIGINAL_FUNCTION_URL cfg) (JObject kvs) = Raises (RequestException e))) \<longrightarrow>
      (\<exists>row. audit_attempts (snd (predict_with_logging cfg w request)) = [[row]]))"
proof (intro conjI impI)
  assume "method request = ''OPTIONS''"
  then show "audit_attempts (snd (predict_with_logging cfg w request)) = []"
    by (simp add: predict_with_logging_def)
next
  assume "method request \<noteq> ''OPTIONS'' \<and> (\<exists>j. get_json request = Inr j \<and> \<not> truthy j)"
  then show "audit_attempts (snd (predict_with_logging cfg w request)) = []"
    by (auto simp add: predict_with_logging_def try_block_def)
next
  assume "method request \<noteq> ''OPTIONS'' \<and> get_json request = Inr (JObject kvs) \<and> kvs \<noteq> [] \<and>
    (\<forall>v. map_of kvs ''week_start'' = Some v \<longrightarrow> \<not> truthy v)"
  then show "audit_attempts (snd (predict_with_logging cfg w request)) = []"
    by (cases "map_of kvs ''week_start''")
      (simp_all add: predict_with_logging_def try_block_def)
next
  assume a: "method request \<noteq> ''OPTIONS'' \<and> get_json request = Inr (JObject kvs) \<and>
    map_of kvs ''week_start'' = Some ws \<and> truthy ws \<and>
    ((\<exists>r. post w (ORIGINAL_FUNCTION_URL cfg) (JObject kvs) = Responds r \<and>
          (resp_status_code r \<noteq> 200 \<or> (\<exists>v. resp_json r = Inr v) \<or>
           resp_json r = Inl JSONDecodeError)) \<or>
     (\<exists>e. post w (ORIGINAL_FUNCTION_URL cfg) (JObject kvs) = Raises (RequestException e)))"
  then have m: "method request \<noteq> ''OPTIONS''"
    and g: "get_json request = Inr (JObject kvs)"
    and k: "map_of kvs ''week_start'' = Some ws" and t: "truthy ws"
    by simp_all
  from a consider
      (responds) r where "post w (ORIGINAL_FUNCTION_URL cfg) (JObject kvs) = Responds r"
        "resp_status_code r \<noteq> 200 \<or> (\<exists>v. resp_json r = Inr v) \<or>
         resp_json r = Inl JSONDecodeError"
    | (raises) e where
        "post w (ORIGINAL_FUNCTION_URL cfg) (JObject kvs) = Raises (RequestException e)"
    by blast
  then show "\<exists>row. audit_attempts (snd (predict_with_logging cfg w request)) = [[row]]"
  proof cases
    case responds
    from responds(2) have "\<exists>p. parse_response r = Inr p"
      by (auto simp add: parse_response_def)
    then obtain p where "parse_response r = Inr p" ..
    with responds(1) m g k t show ?thesis
      by (simp add: predict_with_logging_def try_block_forwarded
          audit_attempts_log_to_bigquery)
  next
    case raises
    with m g k t show ?thesis
      by (simp add: predict_with_logging_def try_block_forwarded audit_attempts_append
          audit_attempts_log_error_to_bigquery)
  qed
qed

theorem one_audit_attempt_per_forwarded_request_witness:
  "method options_request = ''OPTIONS'' \<and>
   audit_attempts (snd (predict_with_logging example_config
          (scripted_world 10 11 (Responds (upstream_answer 200 ''[]'' (Inr (JArray []))))
             (Returns []))
          options_request)) = [] \<and>
   method (post_request Absent) \<noteq> ''OPTIONS'' \<and>
   get_json (post_request Absent) = Inr JNull \<and>
   \<not> truthy JNull \<and>
   audit_attempts (snd (predict_with_logging example_config
          (scripted_world 10 11 (Responds (upstream_answer 200 ''[]'' (Inr (JArray []))))
             (Returns []))
          (post_request Absent))) = [] \<and>
   get_json (post_request (Json_text (Inr (JObject [(''season'', JInt 2024)])))) =
     Inr (JObject [(''season'', JInt 2024)]) \<and>
   map_of [(''season'', JInt 2024)] ''week_start'' = None \<and>
   audit_attempts (snd (predict_with_logging example_config
          (scripted_world 10 11 (Responds (upstream_answer 200 ''[]'' (Inr (JArray []))))
             (Returns []))
          (post_request (Json_text (Inr (JObject [(''season'', JInt 2024)])))))) = [] \<and>
   method week_request \<noteq> ''OPTIONS'' \<and>
   get_json week_request = Inr (JObject week_body) \<and>
   map_of week_body ''week_start'' = Some (JString ''2024-01-01'') \<and>
   truthy (JString ''2024-01-01'') \<and>
   post (scripted_world 10 11 (Responds (upstream_answer 200 ''[]'' (Inr (JArray []))))
           (Returns []))
     (ORIGINAL_FUNCTION_URL example_config) (JObject week_body) =
     Responds (upstream_answer 200 ''[]'' (Inr (JArray []))) \<and>
   resp_json (upstream_answer 200 ''[]'' (Inr (JArray []))) = Inr (JArray []) \<and>
   (\<exists>row. audit_attempts (snd (predict_with_logging example_config
          (scripted_world 10 11 (Responds (upstream_answer 200 ''[]'' (Inr (JArray []))))
             (Returns []))
          week_request)) = [[row]])"
  using one_audit_attempt_per_forwarded_request
    [where request = options_request and cfg = example_config
       and w = "scripted_world 10 11
                  (Responds (upstream_answer 200 ''[]'' (Inr (JArray [])))) (Returns [])"]
    one_audit_attempt_per_forwarded_request
    [where request = "post_request Absent" and cfg = example_config
       and w = "scripted_world 10 11
                  (Responds (upstream_answer 200 ''[]'' (Inr (JArray [])))) (Returns [])"]
    one_audit_attempt_per_forwarded_request
    [where request = "post_request (Json_text (Inr (JObject [(''season'', JInt 2024)])))"
       and kvs = "[(''season'', JInt 2024)]" and cfg = example_config
       and w = "scripted_world 10 11
                  (Responds (upstream_answer 200 ''[]'' (Inr (JArray [])))) (Returns [])"]
    one_audit_attempt_per_forwarded_request
    [where request = week_request
       and kvs = week_body and ws = "JString ''2024-01-01''" and cfg = example_config
       and w = "scripted_world 10 11
                  (Responds (upstream_answer 200 ''[]'' (Inr (JArray [])))) (Returns [])"]
  by (simp add: options_request_def week_request_def post_request_def get_json_def
      week_body_def scripted_world_def upstream_answer_def)

subsection \<open>Timing\<close>

text \<open>
  Claim C9, as stated, fails: \<open>time.time()\<close> is the wall clock, which can be set back
  between two calls. With a reading of 10 at entry and of 5 after the upstream answered,
  the row's \<open>response_time_ms\<close> is \<open>(5 - 10) * 1000\<close>, which is negative (and exact in
  float arithmetic).
\<close>

theorem clock_set_back_gives_negative_response_time:
  "map (map row_response_time_ms)
     (audit_attempts (snd (predict_with_logging example_config
        (scripted_world 10 5 (Responds (upstream_answer 200 ''[]'' (Inr (JArray []))))
           (Returns []))
        week_request))) = [[- 5000]] \<and>
   (- 5000 :: real) < 0"
  by (simp add: predict_with_logging_def try_block_def parse_response_def
      log_to_bigquery_def week_request_def post_request_def get_json_def week_body_def
      scripted_world_def upstream_answer_def)

text \<open>
  Claim C9, amended. Every row handed to the sink, on whichever path, carries as
  \<open>response_time_ms\<close> the float \<open>(t1 - t0) * 1000\<close>, where \<open>t0\<close> is the single clock
  reading taken at handler entry and \<open>t1\<close> the reading taken once the upstream outcome
  is obtained; it is non-negative whenever \<open>t1\<close> is not below \<open>t0\<close> (float rounding
  being monotone and exact at 0).
\<close>

theorem response_time_is_measured_from_entry:
  "\<forall>rows \<in> set (audit_attempts (snd (predict_with_logging cfg w request))).
     \<forall>row \<in> set rows.
       row_response_time_ms row =
         round_double w (round_double w (clock w 1 - clock w 0) * 1000) \<and>
       (clock w 0 \<le> clock w 1 \<and> mono (round_double w) \<and> round_double w 0 = 0 \<longrightarrow>
          0 \<le> row_response_time_ms row)"
proof (intro ballI)
  fix rows row
  assume rows: "rows \<in> set (audit_attempts (snd (predict_with_logging cfg w request)))"
    and row: "row \<in> set rows"
  from audit_attempts_cases [of cfg w request] rows
  obtain r where "audit_attempts (snd (predict_with_logging cfg w request)) = [[r]]"
    and r: "row_response_time_ms r =
      round_double w (round_double w (clock w 1 - clock w 0) * 1000)"
    by auto
  with rows row have "row = r" by simp
  with r have eq: "row_response_time_ms row =
      round_double w (round_double w (clock w 1 - clock w 0) * 1000)"
    by simp
  have "0 \<le> row_response_time_ms row"
    if le: "clock w 0 \<le> clock w 1" and mn: "mono (round_double w)"
      and z: "round_double w 0 = 0"
  proof -
    from le have "0 \<le> clock w 1 - clock w 0" by simp
    with mn have "round_double w 0 \<le> round_double w (clock w 1 - clock w 0)"
      by (rule monoD)
    with z have "0 \<le> round_double w (clock w 1 - clock w 0) * 1000" by simp
    with mn have "round_double w 0 \<le>
        round_double w (round_double w (clock w 1 - clock w 0) * 1000)"
      by (rule monoD)
    with z eq show ?thesis by simp
  qed
  with eq show "row_response_time_ms row =
         round_double w (round_double w (clock w 1 - clock w 0) * 1000) \<and>
       (clock w 0 \<le> clock w 1 \<and> mono (round_double w) \<and> round_double w 0 = 0 \<longrightarrow>
          0 \<le> row_response_time_ms row)"
    by blast
qed

theorem response_time_is_measured_from_entry_witness:
  "clock (scripted_world 10 12 (Responds (upstream_answer 200 ''[]'' (Inr (JArray []))))
            (Returns [])) 0 \<le>
   clock (scripted_world 10 12 (Responds (upstream_answer 200 ''[]'' (Inr (JArray []))))
            (Returns [])) 1 \<and>
   mono (round_double (scripted_world 10 12
            (Responds (upstream_answer 200 ''[]'' (Inr (JArray [])))) (Returns []))) \<and>
   round_double (scripted_world 10 12
            (Responds (upstream_answer 200 ''[]'' (Inr (JArray [])))) (Returns [])) 0 = 0 \<and>
   map (map row_response_time_ms)
     (audit_attempts (snd (predict_with_logging example_config
        (scripted_world 10 12 (Responds (upstream_answer 200 ''[]'' (Inr (JArray []))))
           (Returns []))
        week_request))) = [[2000]] \<and>
   clock (scripted_world 10 40 (Raises (RequestException ''Read timed out'')) (Returns [])) 0 \<le>
   clock (scripted_world 10 40 (Raises (RequestException ''Read timed out'')) (Returns [])) 1 \<and>
   mono (round_double (scripted_world 10 40 (Raises (RequestException ''Read timed out''))
            (Returns []))) \<and>
   round_double (scripted_world 10 40 (Raises (RequestException ''Read timed out''))
            (Returns [])) 0 = 0 \<and>
   map (map row_response_time_ms)
     (audit_attempts (snd (predict_with_logging example_config
        (scripted_world 10 40 (Raises (RequestException ''Read timed out'')) (Returns []))
        week_request))) = [[30000]] \<and>
   (0 :: real) \<le> 2000 \<and> (0 :: real) \<le> 30000"
proof -
  let ?w1 = "scripted_world 10 12
               (Responds (upstream_answer 200 ''[]'' (Inr (JArray [])))) (Returns [])"
  let ?w2 = "scripted_world 10 40 (Raises (RequestException ''Read timed out'')) (Returns [])"
  let ?a1 = "audit_attempts (snd (predict_with_logging example_config ?w1 week_request))"
  let ?a2 = "audit_attempts (snd (predict_with_logging example_config ?w2 week_request))"
  have g: "get_json week_request = Inr (JObject week_body)"
    and m: "method week_request \<noteq> ''OPTIONS''"
    by (simp_all add: week_request_def post_request_def get_json_def)
  have k: "map_of week_body ''week_start'' = Some (JString ''2024-01-01'')"
    by (simp add: week_body_def)
  have c1: "clock ?w1 0 = 10" "clock ?w1 1 = 12" "round_double ?w1 = (\<lambda>x. x)"
    and c2: "clock ?w2 0 = 10" "clock ?w2 1 = 40" "round_double ?w2 = (\<lambda>x. x)"
    by (simp_all add: scripted_world_def)
  have mono_id: "mono (\<lambda>x :: real. x)"
    by (rule monoI)
  have p1: "post ?w1 (ORIGINAL_FUNCTION_URL example_config) (JObject week_body) =
      Responds (upstream_answer 200 ''[]'' (Inr (JArray [])))"
    and p2: "post ?w2 (ORIGINAL_FUNCTION_URL example_config) (JObject week_body) =
      Raises (RequestException ''Read timed out'')"
    by (simp_all add: scripted_world_def)
  have "parse_response (upstream_answer 200 ''[]'' (Inr (JArray []))) = Inr (JArray [])"
    by (simp add: parse_response_def upstream_answer_def)
  with m g k p1 obtain r1 where a1: "?a1 = [[r1]]"
    by (simp add: predict_with_logging_def try_block_forwarded
        audit_attempts_log_to_bigquery)
  from m g k p2 obtain r2 where a2: "?a2 = [[r2]]"
    by (simp add: predict_with_logging_def try_block_forwarded audit_attempts_append
        audit_attempts_log_error_to_bigquery)
  from a1 have "[r1] \<in> set ?a1" and "r1 \<in> set [r1]"
    by simp_all
  with response_time_is_measured_from_entry [of example_config ?w1 week_request]
  have "row_response_time_ms r1 =
      round_double ?w1 (round_double ?w1 (clock ?w1 1 - clock ?w1 0) * 1000)"
    by blast
  then have t1: "row_response_time_ms r1 = 2000"
    by (simp only: c1) simp
  from a2 have "[r2] \<in> set ?a2" and "r2 \<in> set [r2]"
    by simp_all
  with response_time_is_measured_from_entry [of example_config ?w2 week_request]
  have "row_response_time_ms r2 =
      round_double ?w2 (round_double ?w2 (clock ?w2 1 - clock ?w2 0) * 1000)"
    by blast
  then have t2: "row_response_time_ms r2 = 30000"
    by (simp only: c2) simp
  from a1 t1 have r1: "map (map row_response_time_ms) ?a1 = [[2000]]"
    by simp
  from a2 t2 have r2: "map (map row_response_time_ms) ?a2 = [[30000]]"
    by simp
  from c1 c2 mono_id r1 r2 show ?thesis
    by simp
qed

end
